theory Spec2Isabelle
  imports Main "HOL-Library.Word"
begin

section \<open>The expression classes of expr.h\<close>

text \<open>
  The header declares the abstract class \<^verbatim>\<open>Expr\<close> and nineteen classes derived from
  it. The types it takes from other headers (\<^verbatim>\<open>SourcePos\<close>, \<^verbatim>\<open>Type\<close>, \<^verbatim>\<open>Symbol\<close>,
  \<^verbatim>\<open>llvm::Constant\<close>) are type parameters here: \<open>'p\<close>, \<open>'t\<close>, \<open>'s\<close> and \<open>'c\<close>. A pointer
  to an expression is \<open>'e\<close> in the class types and becomes \<open>Expr option\<close> in the tree,
  \<open>None\<close> being the NULL pointer. Every class keeps the position its constructor hands
  to \<^verbatim>\<open>ASTNode\<close> as the field \<open>pos\<close>.
\<close>

subsection \<open>Operator tags\<close>

datatype UnaryExpr_Op =
  PreInc | PreDec | PostInc | PostDec | Negate | LogicalNot | BitNot

datatype BinaryExpr_Op =
  Add | Sub | Mul | Div | Mod | Shl | Shr
  | Lt | Gt | Le | Ge | Equal | NotEqual
  | BitAnd | BitXor | BitOr | LogicalAnd | LogicalOr
  | Comma

datatype AssignExpr_Op =
  Assign | MulAssign | DivAssign | ModAssign | AddAssign | SubAssign
  | ShlAssign | ShrAssign | AndAssign | XorAssign | OrAssign

subsection \<open>The classes and their data members\<close>

datatype ('p, 'e) UnaryExpr =
  UnaryExpr (pos: 'p) (op: UnaryExpr_Op) (expr: 'e)

datatype ('p, 'e) BinaryExpr =
  BinaryExpr (pos: 'p) (op: BinaryExpr_Op) (arg0: 'e) (arg1: 'e)

datatype ('p, 'e) AssignExpr =
  AssignExpr (pos: 'p) (op: AssignExpr_Op) (lvalue: 'e) (rvalue: 'e)

datatype ('p, 'e) SelectExpr =
  SelectExpr (pos: 'p) (test: 'e) (expr1: 'e) (expr2: 'e)

datatype ('p, 'e) ExprList =
  ExprList (pos: 'p) (exprs: "'e list")

datatype ('p, 'e) FunctionCallExpr =
  FunctionCallExpr (pos: 'p) (func: 'e) (args: "('p, 'e) ExprList option")
    (isLaunch: bool) (launchCountExpr: 'e)

datatype ('p, 'e) IndexExpr =
  IndexExpr (pos: 'p) (baseExpr: 'e) (index: 'e)

datatype ('p, 'e) MemberExpr =
  MemberExpr (pos: 'p) (expr: 'e) (identifier_str: string) (identifierPos: 'p)
    (dereferenceExpr: bool)

text \<open>
  \<^verbatim>\<open>ConstExpr\<close> stores its lanes in a union of eleven arrays, one per basic type; the
  member in use is chosen by the type. The union is a tagged sum here, in the order of
  the header. An integer lane is a machine word of its width (\<open>sint\<close> reads a signed
  member, \<open>uint\<close> an unsigned one); the two floating-point formats are left abstract.
\<close>

typedecl float32
typedecl float64

datatype ConstExpr_vals =
  int8Val "8 word list"
  | uint8Val "8 word list"
  | int16Val "16 word list"
  | uint16Val "16 word list"
  | int32Val "32 word list"
  | uint32Val "32 word list"
  | boolVal "bool list"
  | floatVal "float32 list"
  | doubleVal "float64 list"
  | int64Val "64 word list"
  | uint64Val "64 word list"

datatype ('p, 't) ConstExpr =
  ConstExpr (pos: 'p) (type: 't) (vals: ConstExpr_vals)

datatype ('p, 't, 'e) TypeCastExpr =
  TypeCastExpr (pos: 'p) (type: 't) (expr: 'e)

datatype ('p, 'e) ReferenceExpr =
  ReferenceExpr (pos: 'p) (expr: 'e)

datatype ('p, 'e) DereferenceExpr =
  DereferenceExpr (pos: 'p) (expr: 'e)

datatype ('p, 'e) AddressOfExpr =
  AddressOfExpr (pos: 'p) (expr: 'e)

datatype ('p, 't, 'e) SizeOfExpr =
  SizeOfExpr (pos: 'p) (expr: 'e) (type: "'t option")

datatype ('p, 's) SymbolExpr =
  SymbolExpr (pos: 'p) (symbol: "'s option")

datatype ('p, 's) FunctionSymbolExpr =
  FunctionSymbolExpr (pos: 'p) (name: string) (candidateFunctions: "'s list")
    (matchingFunc: "'s option") (triedToResolve: bool)

datatype 'p SyncExpr =
  SyncExpr (pos: 'p)

datatype 'p NullPointerExpr =
  NullPointerExpr (pos: 'p)

datatype ('p, 't, 'e) NewExpr =
  NewExpr (pos: 'p) (allocType: 't) (countExpr: 'e) (initExpr: 'e) (isVarying: bool)

text \<open>
  An expression tree: a node is an object of one of the classes, and each of its
  \<^verbatim>\<open>Expr *\<close> members is NULL or a node. The constructor \<open>E_C\<close> is the conversion of a
  \<^verbatim>\<open>C *\<close> to \<^verbatim>\<open>Expr *\<close>; it records the dynamic class of the node.
\<close>

datatype ('p, 't, 's) Expr =
  E_UnaryExpr "('p, ('p, 't, 's) Expr option) UnaryExpr"
  | E_BinaryExpr "('p, ('p, 't, 's) Expr option) BinaryExpr"
  | E_AssignExpr "('p, ('p, 't, 's) Expr option) AssignExpr"
  | E_SelectExpr "('p, ('p, 't, 's) Expr option) SelectExpr"
  | E_ExprList "('p, ('p, 't, 's) Expr option) ExprList"
  | E_FunctionCallExpr "('p, ('p, 't, 's) Expr option) FunctionCallExpr"
  | E_IndexExpr "('p, ('p, 't, 's) Expr option) IndexExpr"
  | E_MemberExpr "('p, ('p, 't, 's) Expr option) MemberExpr"
  | E_ConstExpr "('p, 't) ConstExpr"
  | E_TypeCastExpr "('p, 't, ('p, 't, 's) Expr option) TypeCastExpr"
  | E_ReferenceExpr "('p, ('p, 't, 's) Expr option) ReferenceExpr"
  | E_DereferenceExpr "('p, ('p, 't, 's) Expr option) DereferenceExpr"
  | E_AddressOfExpr "('p, ('p, 't, 's) Expr option) AddressOfExpr"
  | E_SizeOfExpr "('p, 't, ('p, 't, 's) Expr option) SizeOfExpr"
  | E_SymbolExpr "('p, 's) SymbolExpr"
  | E_FunctionSymbolExpr "('p, 's) FunctionSymbolExpr"
  | E_SyncExpr "'p SyncExpr"
  | E_NullPointerExpr "'p NullPointerExpr"
  | E_NewExpr "('p, 't, ('p, 't, 's) Expr option) NewExpr"

subsection \<open>Virtual member functions\<close>

text \<open>
  \<^verbatim>\<open>TypeCheck\<close> and \<^verbatim>\<open>Optimize\<close> are pure virtual in \<^verbatim>\<open>Expr\<close> and declared by every
  class; their bodies are not in the header. A body is a parameter here, of the type its
  declaration gives it. Eighteen classes declare \<^verbatim>\<open>Expr *Optimize()\<close> and
  \<^verbatim>\<open>Expr *TypeCheck()\<close>: such a body takes the node and returns NULL or a node of any
  class (the node itself, possibly with members changed, or another one). \<^verbatim>\<open>ExprList\<close>
  declares \<^verbatim>\<open>ExprList *Optimize()\<close> and \<^verbatim>\<open>ExprList *TypeCheck()\<close>: its bodies return
  NULL or an \<^verbatim>\<open>ExprList\<close>.
\<close>

type_synonym ('p, 't, 's) Expr_method =
  "('p, 't, 's) Expr \<Rightarrow> ('p, 't, 's) Expr option"

type_synonym ('p, 't, 's) ExprList_method =
  "('p, ('p, 't, 's) Expr option) ExprList \<Rightarrow> ('p, ('p, 't, 's) Expr option) ExprList option"

text \<open>
  The call \<^verbatim>\<open>e->Optimize()\<close> through an \<^verbatim>\<open>Expr *\<close>: the body of the node's own class
  runs, and the \<^verbatim>\<open>ExprList *\<close> that the body of \<^verbatim>\<open>ExprList\<close> returns is converted to
  \<^verbatim>\<open>Expr *\<close>.
\<close>

definition Optimize ::
  "('p, 't, 's) Expr_method \<Rightarrow> ('p, 't, 's) ExprList_method \<Rightarrow> ('p, 't, 's) Expr_method" where
  "Optimize Expr_Optimize ExprList_Optimize e =
     (case e of
        E_ExprList l \<Rightarrow> map_option E_ExprList (ExprList_Optimize l)
      | _ \<Rightarrow> Expr_Optimize e)"

definition TypeCheck ::
  "('p, 't, 's) Expr_method \<Rightarrow> ('p, 't, 's) ExprList_method \<Rightarrow> ('p, 't, 's) Expr_method" where
  "TypeCheck Expr_TypeCheck ExprList_TypeCheck e =
     (case e of
        E_ExprList l \<Rightarrow> map_option E_ExprList (ExprList_TypeCheck l)
      | _ \<Rightarrow> Expr_TypeCheck e)"

text \<open>
  \<^verbatim>\<open>GetConstant\<close> is virtual but not pure: \<^verbatim>\<open>Expr\<close> has a body for it, and the classes
  \<^verbatim>\<open>ExprList\<close>, \<^verbatim>\<open>ConstExpr\<close>, \<^verbatim>\<open>TypeCastExpr\<close> and \<^verbatim>\<open>FunctionSymbolExpr\<close> declare one
  of their own. The other fifteen classes, \<^verbatim>\<open>NullPointerExpr\<close> among them, do not
  declare it and inherit the body of \<^verbatim>\<open>Expr\<close>.
\<close>

text \<open>
  Modelled from the spec: the body of \<^verbatim>\<open>Expr::GetConstant\<close>, which is in expr.cpp and
  not in the header. The spec gives "default: none" for it; the header's comment says
  that an expression that is not a constant convertible to the type returns NULL.
\<close>

definition Expr_GetConstant :: "'t \<Rightarrow> 'c option" where
  "Expr_GetConstant ty = None"

record ('p, 't, 's, 'c) GetConstant_overriders =
  ExprList_GetConstant ::
    "('p, ('p, 't, 's) Expr option) ExprList \<Rightarrow> 't \<Rightarrow> 'c option"
  ConstExpr_GetConstant :: "('p, 't) ConstExpr \<Rightarrow> 't \<Rightarrow> 'c option"
  TypeCastExpr_GetConstant ::
    "('p, 't, ('p, 't, 's) Expr option) TypeCastExpr \<Rightarrow> 't \<Rightarrow> 'c option"
  FunctionSymbolExpr_GetConstant :: "('p, 's) FunctionSymbolExpr \<Rightarrow> 't \<Rightarrow> 'c option"

definition GetConstant ::
  "('p, 't, 's, 'c) GetConstant_overriders \<Rightarrow> ('p, 't, 's) Expr \<Rightarrow> 't \<Rightarrow> 'c option" where
  "GetConstant ov e ty =
     (case e of
        E_ExprList l \<Rightarrow> ExprList_GetConstant ov l ty
      | E_ConstExpr c \<Rightarrow> ConstExpr_GetConstant ov c ty
      | E_TypeCastExpr c \<Rightarrow> TypeCastExpr_GetConstant ov c ty
      | E_FunctionSymbolExpr f \<Rightarrow> FunctionSymbolExpr_GetConstant ov f ty
      | _ \<Rightarrow> Expr_GetConstant ty)"

subsection \<open>Const data members\<close>

text \<open>
  \<^verbatim>\<open>UnaryExpr\<close>, \<^verbatim>\<open>BinaryExpr\<close> and \<^verbatim>\<open>AssignExpr\<close> declare \<^verbatim>\<open>const Op op\<close>; the
  operand members they declare are not const. The position is a member of \<^verbatim>\<open>ASTNode\<close>,
  whose declaration is in ast.h; it is taken as assignable, which only allows more
  bodies. What a member function does to the object is the list of assignments to data
  members it performs, in order. An assignment to a const member is ill-formed: a body
  that contains one does not compile.
\<close>

datatype 'e Returned = ReturnNULL | ReturnThis | ReturnOther 'e

datatype ('p, 'e) UnaryExpr_assign =
  UnaryExpr_set_pos 'p | UnaryExpr_set_op UnaryExpr_Op | UnaryExpr_set_expr 'e

fun UnaryExpr_to_const :: "('p, 'e) UnaryExpr_assign \<Rightarrow> bool" where
  "UnaryExpr_to_const (UnaryExpr_set_pos p) = False"
| "UnaryExpr_to_const (UnaryExpr_set_op v) = True"
| "UnaryExpr_to_const (UnaryExpr_set_expr e) = False"

fun UnaryExpr_store :: "('p, 'e) UnaryExpr \<Rightarrow> ('p, 'e) UnaryExpr_assign \<Rightarrow> ('p, 'e) UnaryExpr" where
  "UnaryExpr_store n (UnaryExpr_set_pos p) = UnaryExpr p (UnaryExpr.op n) (UnaryExpr.expr n)"
| "UnaryExpr_store n (UnaryExpr_set_op v) = UnaryExpr (UnaryExpr.pos n) v (UnaryExpr.expr n)"
| "UnaryExpr_store n (UnaryExpr_set_expr e) = UnaryExpr (UnaryExpr.pos n) (UnaryExpr.op n) e"

datatype ('p, 'e) BinaryExpr_assign =
  BinaryExpr_set_pos 'p | BinaryExpr_set_op BinaryExpr_Op
  | BinaryExpr_set_arg0 'e | BinaryExpr_set_arg1 'e

fun BinaryExpr_to_const :: "('p, 'e) BinaryExpr_assign \<Rightarrow> bool" where
  "BinaryExpr_to_const (BinaryExpr_set_pos p) = False"
| "BinaryExpr_to_const (BinaryExpr_set_op v) = True"
| "BinaryExpr_to_const (BinaryExpr_set_arg0 e) = False"
| "BinaryExpr_to_const (BinaryExpr_set_arg1 e) = False"

fun BinaryExpr_store :: "('p, 'e) BinaryExpr \<Rightarrow> ('p, 'e) BinaryExpr_assign \<Rightarrow> ('p, 'e) BinaryExpr" where
  "BinaryExpr_store n (BinaryExpr_set_pos p) =
     BinaryExpr p (BinaryExpr.op n) (arg0 n) (arg1 n)"
| "BinaryExpr_store n (BinaryExpr_set_op v) =
     BinaryExpr (BinaryExpr.pos n) v (arg0 n) (arg1 n)"
| "BinaryExpr_store n (BinaryExpr_set_arg0 e) =
     BinaryExpr (BinaryExpr.pos n) (BinaryExpr.op n) e (arg1 n)"
| "BinaryExpr_store n (BinaryExpr_set_arg1 e) =
     BinaryExpr (BinaryExpr.pos n) (BinaryExpr.op n) (arg0 n) e"

datatype ('p, 'e) AssignExpr_assign =
  AssignExpr_set_pos 'p | AssignExpr_set_op AssignExpr_Op
  | AssignExpr_set_lvalue 'e | AssignExpr_set_rvalue 'e

fun AssignExpr_to_const :: "('p, 'e) AssignExpr_assign \<Rightarrow> bool" where
  "AssignExpr_to_const (AssignExpr_set_pos p) = False"
| "AssignExpr_to_const (AssignExpr_set_op v) = True"
| "AssignExpr_to_const (AssignExpr_set_lvalue e) = False"
| "AssignExpr_to_const (AssignExpr_set_rvalue e) = False"

fun AssignExpr_store :: "('p, 'e) AssignExpr \<Rightarrow> ('p, 'e) AssignExpr_assign \<Rightarrow> ('p, 'e) AssignExpr" where
  "AssignExpr_store n (AssignExpr_set_pos p) =
     AssignExpr p (AssignExpr.op n) (lvalue n) (rvalue n)"
| "AssignExpr_store n (AssignExpr_set_op v) =
     AssignExpr (AssignExpr.pos n) v (lvalue n) (rvalue n)"
| "AssignExpr_store n (AssignExpr_set_lvalue e) =
     AssignExpr (AssignExpr.pos n) (AssignExpr.op n) e (rvalue n)"
| "AssignExpr_store n (AssignExpr_set_rvalue e) =
     AssignExpr (AssignExpr.pos n) (AssignExpr.op n) (lvalue n) e"

text \<open>
  A body of a member function of class \<open>C\<close>: from the object's members to the
  assignments it performs and the \<^verbatim>\<open>Expr *\<close> it returns. \<open>compiles\<close> holds of a body
  none of whose assignments goes to a const member. \<open>member_call\<close> is one call: the
  object after it, and the pointer returned. \<open>member_calls\<close> is a sequence of calls
  (\<^verbatim>\<open>TypeCheck\<close> and \<^verbatim>\<open>Optimize\<close>, in any order and number) on one object: it goes
  on while each call returns \<^verbatim>\<open>this\<close>, and is \<open>None\<close> once a call returns NULL or
  another node.
\<close>

type_synonym ('n, 'a, 'e) body = "'n \<Rightarrow> 'a list \<times> 'e Returned"

definition compiles :: "('a \<Rightarrow> bool) \<Rightarrow> ('n, 'a, 'e) body \<Rightarrow> bool" where
  "compiles to_const b = (\<forall>n. list_all (\<lambda>a. \<not> to_const a) (fst (b n)))"

definition member_call ::
  "('n \<Rightarrow> 'a \<Rightarrow> 'n) \<Rightarrow> ('n, 'a, 'e) body \<Rightarrow> 'n \<Rightarrow> 'n \<times> 'e Returned" where
  "member_call store b n = (foldl store n (fst (b n)), snd (b n))"

fun member_calls ::
  "('n \<Rightarrow> 'a \<Rightarrow> 'n) \<Rightarrow> ('n, 'a, 'e) body list \<Rightarrow> 'n \<Rightarrow> 'n option" where
  "member_calls store [] n = Some n"
| "member_calls store (b # bs) n =
     (case member_call store b n of
        (n', ReturnThis) \<Rightarrow> member_calls store bs n'
      | (n', ReturnNULL) \<Rightarrow> None
      | (n', ReturnOther e) \<Rightarrow> None)"

subsection \<open>Conversion accessors of ConstExpr\<close>

text \<open>
  Modelled from the spec: the bodies of the accessors \<^verbatim>\<open>AsInt8\<close> ... \<^verbatim>\<open>AsUInt64\<close> of
  \<^verbatim>\<open>ConstExpr\<close>, which are in expr.cpp and not in the header; every definition of this
  subsection belongs to that model. The spec: an accessor
  converts the stored lanes to the requested representation, optionally broadcasting a
  uniform value to the target's vector width ("force varying"), and returns the number of
  lanes written; a conversion follows the source language (float to integer truncates
  toward zero, an out-of-range value wraps by the fixed-width signed or unsigned rule).
  So a lane is converted as a C++ cast converts it: a signed member is sign-extended or
  truncated (\<open>scast\<close>), an unsigned one zero-extended or truncated (\<open>ucast\<close>),
  \<^verbatim>\<open>true\<close> is 1 and \<^verbatim>\<open>false\<close> is 0, and a floating-point lane is truncated to an
  integer, which then wraps. The vector width and the two truncations of the abstract
  floating-point formats are parameters. The stored list holds the lanes in use: one for
  a uniform type, the vector width for a varying one. Every member of the union converts
  to an integer, so no accessor has a failure count here. \<^verbatim>\<open>AsBool\<close>, \<^verbatim>\<open>AsFloat\<close> and
  \<^verbatim>\<open>AsDouble\<close> are not modelled.
\<close>

record Globals =
  vectorWidth :: nat
  float_trunc :: "float32 \<Rightarrow> int"
  double_trunc :: "float64 \<Rightarrow> int"

fun convert_lanes :: "Globals \<Rightarrow> ConstExpr_vals \<Rightarrow> 'a::len word list" where
  "convert_lanes g (int8Val xs) = map scast xs"
| "convert_lanes g (uint8Val xs) = map ucast xs"
| "convert_lanes g (int16Val xs) = map scast xs"
| "convert_lanes g (uint16Val xs) = map ucast xs"
| "convert_lanes g (int32Val xs) = map scast xs"
| "convert_lanes g (uint32Val xs) = map ucast xs"
| "convert_lanes g (boolVal bs) = map of_bool bs"
| "convert_lanes g (floatVal fs) = map (\<lambda>f. word_of_int (float_trunc g f)) fs"
| "convert_lanes g (doubleVal ds) = map (\<lambda>d. word_of_int (double_trunc g d)) ds"
| "convert_lanes g (int64Val xs) = map scast xs"
| "convert_lanes g (uint64Val xs) = map ucast xs"

definition broadcast :: "Globals \<Rightarrow> bool \<Rightarrow> 'a list \<Rightarrow> 'a list" where
  "broadcast g forceVarying xs =
     (if forceVarying \<and> length xs = 1 then replicate (vectorWidth g) (hd xs) else xs)"

definition convert_to :: "Globals \<Rightarrow> ('p, 't) ConstExpr \<Rightarrow> bool \<Rightarrow> nat \<times> 'a::len word list" where
  "convert_to g c forceVarying =
     (let out = broadcast g forceVarying (convert_lanes g (vals c)) in (length out, out))"

text \<open>
  The eight integer accessors: the count returned, and the lanes written through the
  pointer. \<^verbatim>\<open>forceVarying\<close> defaults to false in the header.
\<close>

definition AsInt8 :: "Globals \<Rightarrow> ('p, 't) ConstExpr \<Rightarrow> bool \<Rightarrow> nat \<times> 8 word list" where
  "AsInt8 = convert_to"

definition AsUInt8 :: "Globals \<Rightarrow> ('p, 't) ConstExpr \<Rightarrow> bool \<Rightarrow> nat \<times> 8 word list" where
  "AsUInt8 = convert_to"

definition AsInt16 :: "Globals \<Rightarrow> ('p, 't) ConstExpr \<Rightarrow> bool \<Rightarrow> nat \<times> 16 word list" where
  "AsInt16 = convert_to"

definition AsUInt16 :: "Globals \<Rightarrow> ('p, 't) ConstExpr \<Rightarrow> bool \<Rightarrow> nat \<times> 16 word list" where
  "AsUInt16 = convert_to"

definition AsInt32 :: "Globals \<Rightarrow> ('p, 't) ConstExpr \<Rightarrow> bool \<Rightarrow> nat \<times> 32 word list" where
  "AsInt32 = convert_to"

definition AsUInt32 :: "Globals \<Rightarrow> ('p, 't) ConstExpr \<Rightarrow> bool \<Rightarrow> nat \<times> 32 word list" where
  "AsUInt32 = convert_to"

definition AsInt64 :: "Globals \<Rightarrow> ('p, 't) ConstExpr \<Rightarrow> bool \<Rightarrow> nat \<times> 64 word list" where
  "AsInt64 = convert_to"

definition AsUInt64 :: "Globals \<Rightarrow> ('p, 't) ConstExpr \<Rightarrow> bool \<Rightarrow> nat \<times> 64 word list" where
  "AsUInt64 = convert_to"

text \<open>
  The integer representations, their widths and signedness, and the integer values
  of the lanes of a constant of integer representation.
\<close>

datatype int_rep = Int8 | UInt8 | Int16 | UInt16 | Int32 | UInt32 | Int64 | UInt64

fun bits :: "int_rep \<Rightarrow> nat" where
  "bits Int8 = 8" | "bits UInt8 = 8"
| "bits Int16 = 16" | "bits UInt16 = 16"
| "bits Int32 = 32" | "bits UInt32 = 32"
| "bits Int64 = 64" | "bits UInt64 = 64"

fun is_signed :: "int_rep \<Rightarrow> bool" where
  "is_signed Int8 = True" | "is_signed UInt8 = False"
| "is_signed Int16 = True" | "is_signed UInt16 = False"
| "is_signed Int32 = True" | "is_signed UInt32 = False"
| "is_signed Int64 = True" | "is_signed UInt64 = False"

fun rep_of :: "ConstExpr_vals \<Rightarrow> int_rep option" where
  "rep_of (int8Val xs) = Some Int8"
| "rep_of (uint8Val xs) = Some UInt8"
| "rep_of (int16Val xs) = Some Int16"
| "rep_of (uint16Val xs) = Some UInt16"
| "rep_of (int32Val xs) = Some Int32"
| "rep_of (uint32Val xs) = Some UInt32"
| "rep_of (boolVal bs) = None"
| "rep_of (floatVal fs) = None"
| "rep_of (doubleVal ds) = None"
| "rep_of (int64Val xs) = Some Int64"
| "rep_of (uint64Val xs) = Some UInt64"

fun int_values :: "ConstExpr_vals \<Rightarrow> int list option" where
  "int_values (int8Val xs) = Some (map sint xs)"
| "int_values (uint8Val xs) = Some (map uint xs)"
| "int_values (int16Val xs) = Some (map sint xs)"
| "int_values (uint16Val xs) = Some (map uint xs)"
| "int_values (int32Val xs) = Some (map sint xs)"
| "int_values (uint32Val xs) = Some (map uint xs)"
| "int_values (boolVal bs) = None"
| "int_values (floatVal fs) = None"
| "int_values (doubleVal ds) = None"
| "int_values (int64Val xs) = Some (map sint xs)"
| "int_values (uint64Val xs) = Some (map uint xs)"

text \<open>
  One conversion of a constant: the accessor of representation \<open>r\<close> with the default
  \<^verbatim>\<open>forceVarying\<close>, and the constant of type \<open>t\<close> that the constructor for an array of
  that element type builds from the lanes written.
\<close>

fun converted :: "Globals \<Rightarrow> int_rep \<Rightarrow> 't \<Rightarrow> ('p, 't) ConstExpr \<Rightarrow> ('p, 't) ConstExpr" where
  "converted g Int8 t c = ConstExpr (ConstExpr.pos c) t (int8Val (snd (AsInt8 g c False)))"
| "converted g UInt8 t c = ConstExpr (ConstExpr.pos c) t (uint8Val (snd (AsUInt8 g c False)))"
| "converted g Int16 t c = ConstExpr (ConstExpr.pos c) t (int16Val (snd (AsInt16 g c False)))"
| "converted g UInt16 t c = ConstExpr (ConstExpr.pos c) t (uint16Val (snd (AsUInt16 g c False)))"
| "converted g Int32 t c = ConstExpr (ConstExpr.pos c) t (int32Val (snd (AsInt32 g c False)))"
| "converted g UInt32 t c = ConstExpr (ConstExpr.pos c) t (uint32Val (snd (AsUInt32 g c False)))"
| "converted g Int64 t c = ConstExpr (ConstExpr.pos c) t (int64Val (snd (AsInt64 g c False)))"
| "converted g UInt64 t c = ConstExpr (ConstExpr.pos c) t (uint64Val (snd (AsUInt64 g c False)))"

text \<open>
  The fixed-width rule of the spec for a value out of range: an unsigned target keeps the
  value modulo \<open>2 ^ bits\<close>, a signed one the representative of that class between
  \<open>- 2 ^ (bits - 1)\<close> and \<open>2 ^ (bits - 1) - 1\<close>.
\<close>

definition in_range :: "int_rep \<Rightarrow> int \<Rightarrow> bool" where
  "in_range r v =
     (if is_signed r then - (2 ^ (bits r - 1)) \<le> v \<and> v < 2 ^ (bits r - 1)
      else 0 \<le> v \<and> v < 2 ^ bits r)"

definition wrap :: "int_rep \<Rightarrow> int \<Rightarrow> int" where
  "wrap r v =
     (if is_signed r then (v + 2 ^ (bits r - 1)) mod 2 ^ bits r - 2 ^ (bits r - 1)
      else v mod 2 ^ bits r)"

subsection \<open>Overload resolution of FunctionSymbolExpr\<close>

text \<open>
  Modelled from the spec: the bodies of the member functions \<^verbatim>\<open>ResolveOverloads\<close>,
  \<^verbatim>\<open>tryResolve\<close> and \<^verbatim>\<open>GetMatchingFunction\<close> of \<^verbatim>\<open>FunctionSymbolExpr\<close>, which are in
  expr.cpp and not in the header; every definition of this subsection belongs to that
  model. The spec (4.11): (1) if resolution was already attempted, the cached outcome
  (success or failure) is returned without a diagnostic; (2) the passes run in order
  (exact match, then implicit conversions, then a NULL literal for a pointer parameter)
  up to the first that yields exactly one candidate; (3) a pass that yields more than one
  candidate is an ambiguity error, and no candidate in any pass is a no-match error; (4) a
  candidate with another number of parameters matches in no pass. The outcome of the
  attempt is cached on the node, a success as the matching symbol and a failure as well
  (spec 3, 4.11 and 7). The header gives the node two members to hold it,
  \<^verbatim>\<open>triedToResolve\<close> and \<^verbatim>\<open>matchingFunc\<close>, "the actual matching function found after
  overload resolution": an attempt sets the first, and stores in the second the symbol
  it found, or NULL when it found none. Nothing is assumed of the members of a node
  on which resolution has not run. What the Type System and the Symbol decide is a
  parameter: the parameter types of a candidate, and for each pass whether an argument
  (its type, and whether it could be NULL) matches a parameter type.
\<close>

datatype ('p, 's) Diagnostic =
  AmbiguousOverload 'p "'s list"
  | NoMatchingOverload 'p "'s list"

type_synonym 't matchFunc = "'t \<Rightarrow> bool \<Rightarrow> 't \<Rightarrow> bool"

record ('s, 't) TypeSystem =
  paramTypes :: "'s \<Rightarrow> 't list"
  exactMatch :: "'t matchFunc"
  conversionMatch :: "'t matchFunc"
  nullPointerMatch :: "'t matchFunc"

definition couldBeNULL :: "bool list option \<Rightarrow> nat \<Rightarrow> bool" where
  "couldBeNULL argCouldBeNULL i =
     (case argCouldBeNULL of None \<Rightarrow> False | Some bs \<Rightarrow> i < length bs \<and> bs ! i)"

definition candidate_matches ::
  "('s, 't) TypeSystem \<Rightarrow> 't matchFunc \<Rightarrow> 't list \<Rightarrow> bool list option \<Rightarrow> 's \<Rightarrow> bool" where
  "candidate_matches ts m argTypes argCouldBeNULL cand =
     (length (paramTypes ts cand) = length argTypes
      \<and> (\<forall>i < length argTypes.
            m (argTypes ! i) (couldBeNULL argCouldBeNULL i) (paramTypes ts cand ! i)))"

text \<open>
  The two assignments a resolution makes to the node.
\<close>

definition set_matchingFunc ::
  "'s option \<Rightarrow> ('p, 's) FunctionSymbolExpr \<Rightarrow> ('p, 's) FunctionSymbolExpr" where
  "set_matchingFunc m f =
     FunctionSymbolExpr (FunctionSymbolExpr.pos f) (FunctionSymbolExpr.name f)
       (candidateFunctions f) m (triedToResolve f)"

definition set_triedToResolve ::
  "bool \<Rightarrow> ('p, 's) FunctionSymbolExpr \<Rightarrow> ('p, 's) FunctionSymbolExpr" where
  "set_triedToResolve b f =
     FunctionSymbolExpr (FunctionSymbolExpr.pos f) (FunctionSymbolExpr.name f)
       (candidateFunctions f) (matchingFunc f) b"

text \<open>
  One pass. It returns true when it settles the resolution: with the one candidate that
  matches, now the matching function, or with an ambiguity error and no matching
  function. It returns false, and leaves the node as it is, when no candidate matches.
\<close>

definition tryResolve ::
  "('s, 't) TypeSystem \<Rightarrow> 't matchFunc \<Rightarrow> ('p, 's) FunctionSymbolExpr \<Rightarrow> 'p \<Rightarrow> 't list
   \<Rightarrow> bool list option \<Rightarrow> bool \<times> ('p, 's) FunctionSymbolExpr \<times> ('p, 's) Diagnostic list" where
  "tryResolve ts m f argPos argTypes argCouldBeNULL =
     (case filter (candidate_matches ts m argTypes argCouldBeNULL) (candidateFunctions f) of
        [] \<Rightarrow> (False, f, [])
      | [c] \<Rightarrow> (True, set_matchingFunc (Some c) f, [])
      | c # c' # cs \<Rightarrow>
          (True, set_matchingFunc None f, [AmbiguousOverload argPos (c # c' # cs)]))"

text \<open>
  The passes in order, up to the first that settles the resolution; when none does, the
  no-match error, and no matching function.
\<close>

fun resolve_passes ::
  "('s, 't) TypeSystem \<Rightarrow> 't matchFunc list \<Rightarrow> ('p, 's) FunctionSymbolExpr \<Rightarrow> 'p \<Rightarrow> 't list
   \<Rightarrow> bool list option \<Rightarrow> bool \<times> ('p, 's) FunctionSymbolExpr \<times> ('p, 's) Diagnostic list" where
  "resolve_passes ts [] f argPos argTypes argCouldBeNULL =
     (False, set_matchingFunc None f, [NoMatchingOverload argPos (candidateFunctions f)])"
| "resolve_passes ts (m # ms) f argPos argTypes argCouldBeNULL =
     (case tryResolve ts m f argPos argTypes argCouldBeNULL of
        (True, f', ds) \<Rightarrow> (matchingFunc f' \<noteq> None, f', ds)
      | (False, f', ds) \<Rightarrow> resolve_passes ts ms f' argPos argTypes argCouldBeNULL)"

text \<open>
  \<^verbatim>\<open>ResolveOverloads\<close>: what it returns, the node after the call, and the diagnostics
  it emits.
\<close>

definition ResolveOverloads ::
  "('s, 't) TypeSystem \<Rightarrow> ('p, 's) FunctionSymbolExpr \<Rightarrow> 'p \<Rightarrow> 't list \<Rightarrow> bool list option
   \<Rightarrow> bool \<times> ('p, 's) FunctionSymbolExpr \<times> ('p, 's) Diagnostic list" where
  "ResolveOverloads ts f argPos argTypes argCouldBeNULL =
     (if triedToResolve f then (matchingFunc f \<noteq> None, f, [])
      else resolve_passes ts [exactMatch ts, conversionMatch ts, nullPointerMatch ts]
             (set_triedToResolve True f) argPos argTypes argCouldBeNULL)"

definition GetMatchingFunction :: "('p, 's) FunctionSymbolExpr \<Rightarrow> 's option" where
  "GetMatchingFunction f = matchingFunc f"

text \<open>
  A small Type System for examples: symbols and types are strings, \<open>f_int\<close> takes an
  \<open>int\<close> and \<open>f_float\<close> a \<open>float\<close>; the exact pass wants equal types, and
  the looser passes also let \<open>double\<close> convert to either.
\<close>

definition example_TypeSystem :: "(string, string) TypeSystem" where
  "example_TypeSystem =
     \<lparr>paramTypes = (\<lambda>s. if s = ''f_int'' then [''int''] else [''float'']),
      exactMatch = (\<lambda>a b p. a = p),
      conversionMatch = (\<lambda>a b p. a = p \<or> a = ''double''),
      nullPointerMatch = (\<lambda>a b p. a = p \<or> a = ''double'')\<rparr>"

section \<open>Properties\<close>

subsection \<open>The operator tag is const\<close>

lemma UnaryExpr_store_op:
  "\<not> UnaryExpr_to_const a \<Longrightarrow> UnaryExpr.op (UnaryExpr_store n a) = UnaryExpr.op n"
  by (cases a) simp_all

lemma BinaryExpr_store_op:
  "\<not> BinaryExpr_to_const a \<Longrightarrow> BinaryExpr.op (BinaryExpr_store n a) = BinaryExpr.op n"
  by (cases a) simp_all

lemma AssignExpr_store_op:
  "\<not> AssignExpr_to_const a \<Longrightarrow> AssignExpr.op (AssignExpr_store n a) = AssignExpr.op n"
  by (cases a) simp_all

lemma foldl_store_keeps:
  assumes step: "\<And>n a. \<not> to_const a \<Longrightarrow> f (store n a) = f n"
  shows "list_all (\<lambda>a. \<not> to_const a) as \<Longrightarrow> f (foldl store n as) = f n"
proof (induction as arbitrary: n)
  case Nil
  show ?case by simp
next
  case (Cons a as)
  from Cons.prems have a: "\<not> to_const a" and rest: "list_all (\<lambda>a. \<not> to_const a) as"
    by simp_all
  have "f (foldl store (store n a) as) = f (store n a)"
    by (rule Cons.IH [OF rest])
  with step [OF a] show ?case by simp
qed

lemma member_call_keeps:
  assumes step: "\<And>n a. \<not> to_const a \<Longrightarrow> f (store n a) = f n"
    and ok: "compiles to_const b"
  shows "f (fst (member_call store b n)) = f n"
proof -
  from ok have "list_all (\<lambda>a. \<not> to_const a) (fst (b n))"
    by (simp add: compiles_def)
  then show ?thesis
    by (simp add: member_call_def foldl_store_keeps [where f = f, OF step])
qed

lemma member_calls_keep:
  assumes step: "\<And>n a. \<not> to_const a \<Longrightarrow> f (store n a) = f n"
  shows "list_all (compiles to_const) bs \<Longrightarrow> member_calls store bs n = Some n' \<Longrightarrow> f n' = f n"
proof (induction bs arbitrary: n)
  case Nil
  then show ?case by simp
next
  case (Cons b bs)
  from Cons.prems(1) have b: "compiles to_const b" and bs: "list_all (compiles to_const) bs"
    by simp_all
  obtain m r where call: "member_call store b n = (m, r)"
    by (cases "member_call store b n")
  with Cons.prems(2) have r: "r = ReturnThis" and rest: "member_calls store bs m = Some n'"
    by (cases r; simp)+
  have "f m = f n"
    using member_call_keeps [where f = f and store = store and n = n, OF step b] call by simp
  moreover have "f n' = f m"
    by (rule Cons.IH [OF bs rest])
  ultimately show ?case by simp
qed

text \<open>
  Claim C9. The operator tag of a \<^verbatim>\<open>UnaryExpr\<close>, a \<^verbatim>\<open>BinaryExpr\<close> and an
  \<^verbatim>\<open>AssignExpr\<close> never changes: after any sequence of calls of member functions whose
  bodies compile (\<^verbatim>\<open>TypeCheck\<close>, \<^verbatim>\<open>Optimize\<close>), each returning the node it was called
  on, the node's \<open>op\<close> is the one it had before the first call, that is, the one it was
  constructed with. The bodies are arbitrary; only the declaration \<^verbatim>\<open>const Op op\<close> is
  used.
\<close>

theorem op_is_const:
  "(list_all (compiles UnaryExpr_to_const) ub \<and> member_calls UnaryExpr_store ub u = Some u'
      \<longrightarrow> UnaryExpr.op u' = UnaryExpr.op u)
   \<and> (list_all (compiles BinaryExpr_to_const) bb \<and> member_calls BinaryExpr_store bb b = Some b'
      \<longrightarrow> BinaryExpr.op b' = BinaryExpr.op b)
   \<and> (list_all (compiles AssignExpr_to_const) ab \<and> member_calls AssignExpr_store ab a = Some a'
      \<longrightarrow> AssignExpr.op a' = AssignExpr.op a)"
proof (intro conjI impI)
  assume h: "list_all (compiles UnaryExpr_to_const) ub \<and> member_calls UnaryExpr_store ub u = Some u'"
  from h have ok: "list_all (compiles UnaryExpr_to_const) ub"
    and run: "member_calls UnaryExpr_store ub u = Some u'"
    by simp_all
  show "UnaryExpr.op u' = UnaryExpr.op u"
    by (rule member_calls_keep [where f = UnaryExpr.op and to_const = UnaryExpr_to_const
          and store = UnaryExpr_store, OF UnaryExpr_store_op ok run])
next
  assume h: "list_all (compiles BinaryExpr_to_const) bb \<and> member_calls BinaryExpr_store bb b = Some b'"
  from h have ok: "list_all (compiles BinaryExpr_to_const) bb"
    and run: "member_calls BinaryExpr_store bb b = Some b'"
    by simp_all
  show "BinaryExpr.op b' = BinaryExpr.op b"
    by (rule member_calls_keep [where f = BinaryExpr.op and to_const = BinaryExpr_to_const
          and store = BinaryExpr_store, OF BinaryExpr_store_op ok run])
next
  assume h: "list_all (compiles AssignExpr_to_const) ab \<and> member_calls AssignExpr_store ab a = Some a'"
  from h have ok: "list_all (compiles AssignExpr_to_const) ab"
    and run: "member_calls AssignExpr_store ab a = Some a'"
    by simp_all
  show "AssignExpr.op a' = AssignExpr.op a"
    by (rule member_calls_keep [where f = AssignExpr.op and to_const = AssignExpr_to_const
          and store = AssignExpr_store, OF AssignExpr_store_op ok run])
qed

text \<open>
  The theorem at three concrete objects and bodies: each body compiles, each call returns
  \<^verbatim>\<open>this\<close>, the operands change and the operator stays.
\<close>

theorem op_is_const_witness:
  "list_all (compiles UnaryExpr_to_const)
     [\<lambda>n. ([UnaryExpr_set_expr None], ReturnThis :: (unit, unit, unit) Expr option Returned),
      \<lambda>n. ([UnaryExpr_set_pos ()], ReturnThis)]
   \<and> member_calls UnaryExpr_store
     [\<lambda>n. ([UnaryExpr_set_expr None], ReturnThis :: (unit, unit, unit) Expr option Returned),
      \<lambda>n. ([UnaryExpr_set_pos ()], ReturnThis)]
     (UnaryExpr () Negate (Some (E_SyncExpr (SyncExpr ()))))
     = Some (UnaryExpr () Negate None)
   \<and> UnaryExpr.op (UnaryExpr () Negate (None :: (unit, unit, unit) Expr option)) = Negate
   \<and> list_all (compiles BinaryExpr_to_const)
     [\<lambda>n. ([BinaryExpr_set_arg1 (arg0 n)], ReturnThis :: (unit, unit, unit) Expr option Returned)]
   \<and> member_calls BinaryExpr_store
     [\<lambda>n. ([BinaryExpr_set_arg1 (arg0 n)], ReturnThis :: (unit, unit, unit) Expr option Returned)]
     (BinaryExpr () Add (Some (E_SyncExpr (SyncExpr ()))) None)
     = Some (BinaryExpr () Add (Some (E_SyncExpr (SyncExpr ()))) (Some (E_SyncExpr (SyncExpr ()))))
   \<and> list_all (compiles AssignExpr_to_const)
     [\<lambda>n. ([AssignExpr_set_rvalue None, AssignExpr_set_lvalue None],
        ReturnThis :: (unit, unit, unit) Expr option Returned)]
   \<and> member_calls AssignExpr_store
     [\<lambda>n. ([AssignExpr_set_rvalue None, AssignExpr_set_lvalue None],
        ReturnThis :: (unit, unit, unit) Expr option Returned)]
     (AssignExpr () MulAssign (Some (E_SyncExpr (SyncExpr ()))) None)
     = Some (AssignExpr () MulAssign None None)"
  using op_is_const
    [of "[\<lambda>n. ([UnaryExpr_set_expr None], ReturnThis :: (unit, unit, unit) Expr option Returned),
          \<lambda>n. ([UnaryExpr_set_pos ()], ReturnThis)]"
      "UnaryExpr () Negate (Some (E_SyncExpr (SyncExpr ())))"
      "UnaryExpr () Negate None"
      "[\<lambda>n. ([BinaryExpr_set_arg1 (arg0 n)], ReturnThis :: (unit, unit, unit) Expr option Returned)]"
      "BinaryExpr () Add (Some (E_SyncExpr (SyncExpr ()))) None"
      "BinaryExpr () Add (Some (E_SyncExpr (SyncExpr ()))) (Some (E_SyncExpr (SyncExpr ())))"
      "[\<lambda>n. ([AssignExpr_set_rvalue None, AssignExpr_set_lvalue None],
          ReturnThis :: (unit, unit, unit) Expr option Returned)]"
      "AssignExpr () MulAssign (Some (E_SyncExpr (SyncExpr ()))) None"
      "AssignExpr () MulAssign None None"]
  by (simp add: compiles_def member_call_def)

text \<open>
  The hypothesis is what the declaration gives: in the model an assignment to \<open>op\<close> can
  be written, it changes the tag, and it is exactly what \<open>compiles\<close> refuses.
\<close>

lemma const_check_is_needed:
  "member_calls UnaryExpr_store
     [\<lambda>n. ([UnaryExpr_set_op BitNot], ReturnThis :: (unit, unit, unit) Expr option Returned)]
     (UnaryExpr () Negate None) = Some (UnaryExpr () BitNot None)
   \<and> \<not> compiles UnaryExpr_to_const
     (\<lambda>n :: (unit, (unit, unit, unit) Expr option) UnaryExpr.
        ([UnaryExpr_set_op BitNot], ReturnThis :: (unit, unit, unit) Expr option Returned))"
  by (simp add: compiles_def member_call_def)

subsection \<open>The passes of an expression list\<close>

text \<open>
  Claim C10. For every \<^verbatim>\<open>ExprList\<close>, \<^verbatim>\<open>Optimize\<close> and \<^verbatim>\<open>TypeCheck\<close> return NULL (the
  failure signal) or an \<^verbatim>\<open>ExprList\<close>, never a node of another class, whatever their
  bodies are: the declarations \<^verbatim>\<open>ExprList *Optimize()\<close> and \<^verbatim>\<open>ExprList *TypeCheck()\<close>
  leave nothing else.
\<close>

theorem ExprList_passes_return_ExprList:
  "(Optimize eo lo (E_ExprList l) = None
      \<or> (\<exists>l'. Optimize eo lo (E_ExprList l) = Some (E_ExprList l')))
   \<and> (TypeCheck et lt (E_ExprList l) = None
      \<or> (\<exists>l'. TypeCheck et lt (E_ExprList l) = Some (E_ExprList l')))"
proof
  show "Optimize eo lo (E_ExprList l) = None
      \<or> (\<exists>l'. Optimize eo lo (E_ExprList l) = Some (E_ExprList l'))"
    by (cases "lo l") (simp_all add: Optimize_def)
next
  show "TypeCheck et lt (E_ExprList l) = None
      \<or> (\<exists>l'. TypeCheck et lt (E_ExprList l) = Some (E_ExprList l'))"
    by (cases "lt l") (simp_all add: TypeCheck_def)
qed

text \<open>
  The other classes declare \<^verbatim>\<open>Expr *\<close>: a body may return a node of another class, as
  constant folding of a \<^verbatim>\<open>BinaryExpr\<close> into a \<^verbatim>\<open>ConstExpr\<close> does.
\<close>

lemma other_classes_may_be_rewritten:
  "Optimize (\<lambda>e. Some (E_ConstExpr c)) lo (E_BinaryExpr b) = Some (E_ConstExpr c)"
  by (simp add: Optimize_def)

subsection \<open>GetConstant of the null pointer\<close>

text \<open>
  Claim C5 says that \<^verbatim>\<open>GetConstant\<close> on a \<^verbatim>\<open>NullPointerExpr\<close> returns a zero-valued
  constant for every pointer type. The class declares no \<^verbatim>\<open>GetConstant\<close>: the call runs
  the body of \<^verbatim>\<open>Expr\<close>, whatever the four overriding bodies are, and for every type the
  result is the absence indicator.
\<close>

theorem NullPointerExpr_GetConstant_is_default:
  "GetConstant ov (E_NullPointerExpr n) ty = Expr_GetConstant ty
   \<and> GetConstant ov (E_NullPointerExpr n) ty = None"
  by (simp add: GetConstant_def Expr_GetConstant_def)

subsection \<open>Conversions of constants\<close>

lemma cast_back_ss:
  "LENGTH('a::len) \<le> LENGTH('b::len) \<Longrightarrow> scast (scast (x :: 'a word) :: 'b word) = x"
  by (rule scast_up_scast_id) (simp add: is_up)

lemma cast_back_uu:
  "LENGTH('a::len) \<le> LENGTH('b::len) \<Longrightarrow> ucast (ucast (x :: 'a word) :: 'b word) = x"
  by (rule ucast_up_ucast_id) (simp add: is_up)

lemma cast_back_su:
  assumes "LENGTH('a::len) \<le> LENGTH('b::len)"
  shows "ucast (scast (x :: 'a word) :: 'b word) = x"
proof -
  have "(ucast :: 'b word \<Rightarrow> 'a word) = scast"
    by (rule down_cast_same) (simp add: is_down assms)
  then show ?thesis
    by (simp add: cast_back_ss [OF assms])
qed

lemma cast_back_us:
  assumes "LENGTH('a::len) \<le> LENGTH('b::len)"
  shows "scast (ucast (x :: 'a word) :: 'b word) = x"
proof -
  have "(ucast :: 'b word \<Rightarrow> 'a word) = scast"
    by (rule down_cast_same) (simp add: is_down assms)
  then have "scast (ucast x :: 'b word) = (ucast (ucast x :: 'b word) :: 'a word)"
    by simp
  then show ?thesis
    by (simp add: cast_back_uu [OF assms])
qed

lemma wrap_in_range: "in_range r v \<Longrightarrow> wrap r v = v"
  by (cases r) (simp_all add: in_range_def wrap_def)


lemma convert_lanes_False [simp]:
  "snd (convert_to g c False) = convert_lanes g (vals c)"
  by (simp add: convert_to_def broadcast_def Let_def)

lemmas As_defs =
  AsInt8_def AsUInt8_def AsInt16_def AsUInt16_def AsInt32_def AsUInt32_def
  AsInt64_def AsUInt64_def

lemmas cast_back = cast_back_ss cast_back_uu cast_back_su cast_back_us

lemma round_trip_lanes:
  "rep_of (vals c) = Some r \<Longrightarrow> bits r < bits r' \<Longrightarrow>
   vals (converted g r t (converted g r' t' c)) = vals c"
  by (cases "vals c"; cases r'; simp add: As_defs cast_back comp_def)

lemma sint_scast_wrap:
  "sint (scast (x :: 'a::len word) :: 'b::len word)
   = (sint x + 2 ^ (LENGTH('b) - 1)) mod 2 ^ LENGTH('b) - 2 ^ (LENGTH('b) - 1)"
  unfolding scast_eq by (rule int_word_sint)

lemma sint_ucast_wrap:
  "sint (ucast (x :: 'a::len word) :: 'b::len word)
   = (uint x + 2 ^ (LENGTH('b) - 1)) mod 2 ^ LENGTH('b) - 2 ^ (LENGTH('b) - 1)"
  unfolding ucast_eq by (rule int_word_sint)

lemma uint_scast_wrap:
  "uint (scast (x :: 'a::len word) :: 'b::len word) = sint x mod 2 ^ LENGTH('b)"
  unfolding scast_eq by (rule uint_word_of_int)

lemma uint_ucast_wrap:
  "uint (ucast (x :: 'a::len word) :: 'b::len word) = uint x mod 2 ^ LENGTH('b)"
  unfolding ucast_eq by (rule uint_word_of_int)

lemma uint_convert_lanes:
  "int_values v = Some vs \<Longrightarrow>
   map uint (convert_lanes g v :: 'a::len word list) = map (\<lambda>k. k mod 2 ^ LENGTH('a)) vs"
  by (cases v) (auto simp add: uint_scast_wrap uint_ucast_wrap)

lemma sint_convert_lanes:
  "int_values v = Some vs \<Longrightarrow>
   map sint (convert_lanes g v :: 'a::len word list)
   = map (\<lambda>k. (k + 2 ^ (LENGTH('a) - 1)) mod 2 ^ LENGTH('a) - 2 ^ (LENGTH('a) - 1)) vs"
  by (cases v) (auto simp add: sint_scast_wrap sint_ucast_wrap)

lemma converted_values:
  "int_values (vals c) = Some vs \<Longrightarrow>
   int_values (vals (converted g r' t' c)) = Some (map (wrap r') vs)"
  by (cases r') (simp_all add: As_defs wrap_def uint_convert_lanes sint_convert_lanes)

lemma round_trip_constant:
  assumes "rep_of (vals c) = Some r" and "bits r < bits r'"
  shows "converted g r (ConstExpr.type c) (converted g r' t' c) = c"
proof -
  have p: "ConstExpr.pos (converted g r (ConstExpr.type c) (converted g r' t' c)) = ConstExpr.pos c"
    by (cases r; cases r'; simp)
  have t: "ConstExpr.type (converted g r (ConstExpr.type c) (converted g r' t' c)) = ConstExpr.type c"
    by (cases r; simp)
  have v: "vals (converted g r (ConstExpr.type c) (converted g r' t' c)) = vals c"
    by (rule round_trip_lanes [OF assms])
  from p t v show ?thesis
    by (simp add: ConstExpr.expand)
qed

lemma map_wrap_in_range: "list_all (in_range r) vs \<Longrightarrow> map (wrap r) vs = vs"
  by (induction vs) (simp_all add: wrap_in_range)

text \<open>
  Claim C4. For a constant of integer representation \<open>r\<close>: converting it with the
  accessor of a wider integer representation \<open>r'\<close> and converting the result back with
  the accessor of \<open>r\<close> gives the original constant. Every conversion to an integer
  representation follows one fixed rule, \<open>wrap\<close>, on the integer values of the lanes
  (so converting the same value again gives the same result), and it keeps every value
  that is in range of the target.
\<close>

theorem conversion_round_trip:
  "(rep_of (vals c) = Some r \<and> bits r < bits r'
      \<longrightarrow> converted g r (ConstExpr.type c) (converted g r' t' c) = c)
   \<and> (int_values (vals c) = Some vs
      \<longrightarrow> int_values (vals (converted g r' t' c)) = Some (map (wrap r') vs))
   \<and> (int_values (vals c) = Some vs \<and> list_all (in_range r') vs
      \<longrightarrow> int_values (vals (converted g r' t' c)) = Some vs)"
proof (intro conjI impI)
  assume "rep_of (vals c) = Some r \<and> bits r < bits r'"
  then show "converted g r (ConstExpr.type c) (converted g r' t' c) = c"
    by (simp add: round_trip_constant)
next
  assume "int_values (vals c) = Some vs"
  then show "int_values (vals (converted g r' t' c)) = Some (map (wrap r') vs)"
    by (rule converted_values)
next
  assume h: "int_values (vals c) = Some vs \<and> list_all (in_range r') vs"
  then have "int_values (vals (converted g r' t' c)) = Some (map (wrap r') vs)"
    by (simp add: converted_values)
  with h show "int_values (vals (converted g r' t' c)) = Some vs"
    by (simp add: map_wrap_in_range)
qed

text \<open>
  The theorem at the int32 lanes 200, -129 and 5: through uint64 and back they are
  unchanged; as int8 they wrap to -56, 127 and 5; as int16, where all three are in range,
  they keep their values.
\<close>

theorem conversion_round_trip_witness:
  "rep_of (vals (ConstExpr () ''varying int32'' (int32Val [200, - 129, 5]))) = Some Int32
   \<and> bits Int32 < bits UInt64
   \<and> converted \<lparr>vectorWidth = 4, float_trunc = (\<lambda>f. 0), double_trunc = (\<lambda>d. 0)\<rparr>
        Int32 ''varying int32''
        (converted \<lparr>vectorWidth = 4, float_trunc = (\<lambda>f. 0), double_trunc = (\<lambda>d. 0)\<rparr>
           UInt64 ''varying uint64'' (ConstExpr () ''varying int32'' (int32Val [200, - 129, 5])))
      = ConstExpr () ''varying int32'' (int32Val [200, - 129, 5])
   \<and> int_values (vals (ConstExpr () ''varying int32'' (int32Val [200, - 129, 5])))
      = Some [200, - 129, 5]
   \<and> int_values (vals
        (converted \<lparr>vectorWidth = 4, float_trunc = (\<lambda>f. 0), double_trunc = (\<lambda>d. 0)\<rparr>
           Int8 ''varying int8'' (ConstExpr () ''varying int32'' (int32Val [200, - 129, 5]))))
      = Some [- 56, 127, 5]
   \<and> list_all (in_range Int16) [200, - 129, 5]
   \<and> int_values (vals
        (converted \<lparr>vectorWidth = 4, float_trunc = (\<lambda>f. 0), double_trunc = (\<lambda>d. 0)\<rparr>
           Int16 ''varying int16'' (ConstExpr () ''varying int32'' (int32Val [200, - 129, 5]))))
      = Some [200, - 129, 5]"
  using
    conversion_round_trip
      [of "ConstExpr () ''varying int32'' (int32Val [200, - 129, 5])" Int32 UInt64
        "\<lparr>vectorWidth = 4, float_trunc = (\<lambda>f. 0), double_trunc = (\<lambda>d. 0)\<rparr>"
        "''varying uint64''" "[200, - 129, 5]"]
    conversion_round_trip
      [of "ConstExpr () ''varying int32'' (int32Val [200, - 129, 5])" Int32 Int8
        "\<lparr>vectorWidth = 4, float_trunc = (\<lambda>f. 0), double_trunc = (\<lambda>d. 0)\<rparr>"
        "''varying int8''" "[200, - 129, 5]"]
    conversion_round_trip
      [of "ConstExpr () ''varying int32'' (int32Val [200, - 129, 5])" Int32 Int16
        "\<lparr>vectorWidth = 4, float_trunc = (\<lambda>f. 0), double_trunc = (\<lambda>d. 0)\<rparr>"
        "''varying int16''" "[200, - 129, 5]"]
  by (simp add: in_range_def wrap_def)

subsection \<open>Cached overload resolution\<close>

lemma tryResolve_frame:
  "tryResolve ts m f p a n = (b, f', ds) \<Longrightarrow>
   triedToResolve f' = triedToResolve f \<and> candidateFunctions f' = candidateFunctions f"
  by (auto simp add: tryResolve_def set_matchingFunc_def split: list.splits)

lemma tryResolve_False:
  "tryResolve ts m f p a n = (False, f', ds) \<Longrightarrow> f' = f \<and> ds = []"
  by (auto simp add: tryResolve_def split: list.splits)

lemma resolve_passes_outcome:
  "resolve_passes ts ms f p a n = (ok, f', ds) \<Longrightarrow>
   ok = (matchingFunc f' \<noteq> None) \<and> triedToResolve f' = triedToResolve f
   \<and> candidateFunctions f' = candidateFunctions f"
proof (induction ms arbitrary: f)
  case Nil
  then show ?case by (auto simp add: set_matchingFunc_def)
next
  case (Cons m ms)
  obtain b f1 d1 where t: "tryResolve ts m f p a n = (b, f1, d1)"
    by (cases "tryResolve ts m f p a n")
  show ?case
  proof (cases b)
    case True
    with t Cons.prems have "ok = (matchingFunc f1 \<noteq> None)" and "f' = f1"
      by auto
    with tryResolve_frame [OF t] show ?thesis by simp
  next
    case False
    with t have same: "f1 = f"
      by (simp add: tryResolve_False)
    from False t Cons.prems have "resolve_passes ts ms f1 p a n = (ok, f', ds)"
      by simp
    with same Cons.IH [of f] show ?thesis by simp
  qed
qed

lemma ResolveOverloads_caches:
  assumes "ResolveOverloads ts f p a n = (ok, f', ds)"
  shows "triedToResolve f' \<and> ok = (matchingFunc f' \<noteq> None)
    \<and> candidateFunctions f' = candidateFunctions f"
proof (cases "triedToResolve f")
  case True
  with assms show ?thesis
    by (auto simp add: ResolveOverloads_def)
next
  case False
  with assms have
    "resolve_passes ts [exactMatch ts, conversionMatch ts, nullPointerMatch ts]
       (set_triedToResolve True f) p a n = (ok, f', ds)"
    by (simp add: ResolveOverloads_def)
  from resolve_passes_outcome [OF this] show ?thesis
    by (simp add: set_triedToResolve_def)
qed

text \<open>
  Claim C3. For every node, whatever its members hold: after a first call of
  \<^verbatim>\<open>ResolveOverloads\<close>, a later call with the same argument types (at any position)
  returns the outcome of the first, leaves the node as it is, candidates included, and
  emits no diagnostic; \<^verbatim>\<open>GetMatchingFunction\<close> gives the same symbol after it as
  before it.
\<close>

theorem ResolveOverloads_cached:
  "(let first = ResolveOverloads ts f p a n;
        f' = fst (snd first);
        later = ResolveOverloads ts f' p' a n
    in later = (fst first, f', [])
       \<and> GetMatchingFunction (fst (snd later)) = GetMatchingFunction f'
       \<and> candidateFunctions f' = candidateFunctions f)"
proof -
  obtain ok f' ds where first: "ResolveOverloads ts f p a n = (ok, f', ds)"
    by (cases "ResolveOverloads ts f p a n")
  from ResolveOverloads_caches [OF first]
  have tried: "triedToResolve f'" and ok: "ok = (matchingFunc f' \<noteq> None)"
    and cands: "candidateFunctions f' = candidateFunctions f"
    by simp_all
  from tried ok have later: "ResolveOverloads ts f' p' a n = (ok, f', [])"
    by (simp add: ResolveOverloads_def)
  from first later cands show ?thesis
    by (simp add: Let_def)
qed

text \<open>
  The theorem at a call that resolves (an \<open>int\<close> argument), at one that is ambiguous (a
  \<open>double\<close> converts to both candidates) and at one that matches nothing (two
  arguments), the last on a node that held a matching function before resolution ran:
  the second call returns what the first did, with no diagnostic.
\<close>

theorem ResolveOverloads_cached_witness:
  "ResolveOverloads example_TypeSystem
        (FunctionSymbolExpr (0::nat) ''f'' [''f_int'', ''f_float''] None False) 1 [''int''] None
      = (True, FunctionSymbolExpr 0 ''f'' [''f_int'', ''f_float''] (Some ''f_int'') True, [])
   \<and> ResolveOverloads example_TypeSystem
        (FunctionSymbolExpr (0::nat) ''f'' [''f_int'', ''f_float''] (Some ''f_int'') True)
        2 [''int''] None
      = (True, FunctionSymbolExpr 0 ''f'' [''f_int'', ''f_float''] (Some ''f_int'') True, [])
   \<and> ResolveOverloads example_TypeSystem
        (FunctionSymbolExpr (0::nat) ''f'' [''f_int'', ''f_float''] None False) 1 [''double''] None
      = (False, FunctionSymbolExpr 0 ''f'' [''f_int'', ''f_float''] None True,
         [AmbiguousOverload 1 [''f_int'', ''f_float'']])
   \<and> ResolveOverloads example_TypeSystem
        (FunctionSymbolExpr (0::nat) ''f'' [''f_int'', ''f_float''] None True) 2 [''double''] None
      = (False, FunctionSymbolExpr 0 ''f'' [''f_int'', ''f_float''] None True, [])
   \<and> ResolveOverloads example_TypeSystem
        (FunctionSymbolExpr (0::nat) ''f'' [''f_int'', ''f_float''] (Some ''f_int'') False)
        1 [''int'', ''int''] None
      = (False, FunctionSymbolExpr 0 ''f'' [''f_int'', ''f_float''] None True,
         [NoMatchingOverload 1 [''f_int'', ''f_float'']])
   \<and> ResolveOverloads example_TypeSystem
        (FunctionSymbolExpr (0::nat) ''f'' [''f_int'', ''f_float''] None True)
        2 [''int'', ''int''] None
      = (False, FunctionSymbolExpr 0 ''f'' [''f_int'', ''f_float''] None True, [])"
proof -
  let ?new = "FunctionSymbolExpr (0::nat) ''f'' [''f_int'', ''f_float''] None False"
  let ?odd = "FunctionSymbolExpr (0::nat) ''f'' [''f_int'', ''f_float''] (Some ''f_int'') False"
  let ?hit = "FunctionSymbolExpr (0::nat) ''f'' [''f_int'', ''f_float''] (Some ''f_int'') True"
  let ?miss = "FunctionSymbolExpr (0::nat) ''f'' [''f_int'', ''f_float''] None True"
  have one: "ResolveOverloads example_TypeSystem ?new 1 [''int''] None = (True, ?hit, [])"
    by (simp add: example_TypeSystem_def ResolveOverloads_def set_triedToResolve_def
        set_matchingFunc_def tryResolve_def candidate_matches_def couldBeNULL_def)
  have many: "ResolveOverloads example_TypeSystem ?new 1 [''double''] None
      = (False, ?miss, [AmbiguousOverload 1 [''f_int'', ''f_float'']])"
    by (simp add: example_TypeSystem_def ResolveOverloads_def set_triedToResolve_def
        set_matchingFunc_def tryResolve_def candidate_matches_def couldBeNULL_def)
  have none: "ResolveOverloads example_TypeSystem ?odd 1 [''int'', ''int''] None
      = (False, ?miss, [NoMatchingOverload 1 [''f_int'', ''f_float'']])"
    by (simp add: example_TypeSystem_def ResolveOverloads_def set_triedToResolve_def
        set_matchingFunc_def tryResolve_def candidate_matches_def couldBeNULL_def)
  from one many none
    ResolveOverloads_cached [of example_TypeSystem ?new 1 "[''int'']" None 2]
    ResolveOverloads_cached [of example_TypeSystem ?new 1 "[''double'']" None 2]
    ResolveOverloads_cached [of example_TypeSystem ?odd 1 "[''int'', ''int'']" None 2]
  show ?thesis
    by (simp add: Let_def)
qed

end
